theory Spec2Isabelle
  imports Complex_Main "HOL-Library.Word"
begin

section \<open>Bytes, errors and struct packing\<close>

text \<open>
  Files and chunk payloads are Python \<^verbatim>\<open>bytes\<close>: lists of 8-bit words.  Every exception
  the two scripts can raise is a value of \<open>error\<close>; a function that can raise returns
  \<open>error + 'a\<close> with \<open>Inl\<close> the exception.
\<close>

type_synonym byte = "8 word"

datatype error = ValueError | StructError | UnicodeDecodeError | ZlibError | IndexError

text \<open>The fixed signature \<^verbatim>\<open>b'\x89PNG\r\n\x1a\n'\<close>.\<close>

definition png_signature :: "byte list" where
  "png_signature = [0x89, 0x50, 0x4E, 0x47, 0x0D, 0x0A, 0x1A, 0x0A]"

text \<open>Big-endian value of a byte string, as \<^verbatim>\<open>struct.unpack('>I', ...)\<close> and \<^verbatim>\<open>'>H'\<close> read it.\<close>

definition be_nat :: "byte list \<Rightarrow> nat" where
  "be_nat bs = foldl (\<lambda>acc b. acc * 256 + unat b) 0 bs"

text \<open>\<^verbatim>\<open>struct.unpack('>I', bs)[0]\<close>: raises \<^verbatim>\<open>struct.error\<close> unless \<open>bs\<close> has exactly 4 bytes.\<close>

definition unpack_u32 :: "byte list \<Rightarrow> error + nat" where
  "unpack_u32 bs = (if length bs = 4 then Inr (be_nat bs) else Inl StructError)"

text \<open>\<^verbatim>\<open>struct.pack('>I', n)\<close>: raises \<^verbatim>\<open>struct.error\<close> when \<open>n\<close> does not fit 32 bits.\<close>

definition u32_bytes :: "nat \<Rightarrow> byte list" where
  "u32_bytes n = [word_of_nat (n div 2 ^ 24), word_of_nat (n div 2 ^ 16),
                  word_of_nat (n div 2 ^ 8), word_of_nat n]"

definition pack_u32 :: "nat \<Rightarrow> error + byte list" where
  "pack_u32 n = (if n < 2 ^ 32 then Inr (u32_bytes n) else Inl StructError)"

text \<open>\<^verbatim>\<open>bs.decode('ascii')\<close>: raises \<^verbatim>\<open>UnicodeDecodeError\<close> on a byte above 127.\<close>

definition decode_ascii :: "byte list \<Rightarrow> error + string" where
  "decode_ascii bs = (if \<forall>b \<in> set bs. b < 128 then Inr (map (\<lambda>b. char_of (unat b)) bs)
                      else Inl UnicodeDecodeError)"

text \<open>\<^verbatim>\<open>s.encode('ascii')\<close> on a string of ASCII characters.\<close>

definition encode_ascii :: "string \<Rightarrow> byte list" where
  "encode_ascii s = map of_char s"

section \<open>Chunk Stream Reader (\<^verbatim>\<open>read_png_chunks\<close>, png_hdr_analyzer.py)\<close>

record chunk =
  chunk_type :: string
  chunk_length :: nat
  chunk_data :: "byte list"
  chunk_crc :: nat

text \<open>
  The \<^verbatim>\<open>while True\<close> loop of \<^verbatim>\<open>read_png_chunks\<close>.  The argument is what is left of the file
  at the current position; \<^verbatim>\<open>f.read(n)\<close> is \<open>take n\<close> and moves the position by what was
  read.  A short read of the length field ends the loop.  A short read of the CRC makes
  \<^verbatim>\<open>struct.unpack\<close> raise, and then the whole call raises: no list is returned.
\<close>

function read_chunks_loop :: "byte list \<Rightarrow> error + chunk list" where
  "read_chunks_loop f =
     (let length_data = take 4 f in
      if length length_data < 4 then Inr []
      else
        (let len = be_nat length_data;
             f1 = drop 4 f
         in (case decode_ascii (take 4 f1) of
               Inl e \<Rightarrow> Inl e
             | Inr ty \<Rightarrow>
                (let f2 = drop 4 f1;
                     data = take len f2;
                     f3 = drop len f2;
                     crc = take 4 f3;
                     f4 = drop 4 f3
                 in (case unpack_u32 crc of
                       Inl e \<Rightarrow> Inl e
                     | Inr crc_val \<Rightarrow>
                        (let c = \<lparr>chunk_type = ty, chunk_length = len,
                                  chunk_data = data, chunk_crc = crc_val\<rparr>
                         in if ty = ''IEND'' then Inr [c]
                            else (case read_chunks_loop f4 of
                                    Inl e \<Rightarrow> Inl e
                                  | Inr cs \<Rightarrow> Inr (c # cs))))))))"
  by pat_completeness auto
termination
  by (relation "measure length") auto

declare read_chunks_loop.simps [simp del]

definition read_png_chunks :: "byte list \<Rightarrow> error + chunk list" where
  "read_png_chunks file =
     (if take 8 file \<noteq> png_signature then Inl ValueError
      else read_chunks_loop (drop 8 file))"

text \<open>
  The byte layout the reader expects of one record: length, type, payload, checksum.
  It is the layout \<^verbatim>\<open>make_chunk\<close> writes, with the checksum left free.
\<close>

definition chunk_bytes :: "chunk \<Rightarrow> byte list" where
  "chunk_bytes c = u32_bytes (chunk_length c) @ encode_ascii (chunk_type c)
                   @ chunk_data c @ u32_bytes (chunk_crc c)"

definition is_ascii :: "string \<Rightarrow> bool" where
  "is_ascii s = (\<forall>c \<in> set s. (of_char c :: nat) < 128)"

definition wf_chunk :: "chunk \<Rightarrow> bool" where
  "wf_chunk c = (length (chunk_type c) = 4 \<and> is_ascii (chunk_type c)
                 \<and> chunk_length c < 2 ^ 32 \<and> length (chunk_data c) = chunk_length c
                 \<and> chunk_crc c < 2 ^ 32)"


section \<open>Chunk metadata decoders (png_hdr_analyzer.py)\<close>

text \<open>
  \<^verbatim>\<open>parse_ihdr\<close>: \<^verbatim>\<open>struct.unpack('>II', data[:8])\<close> raises unless the slice has 8 bytes, and
  \<^verbatim>\<open>data[8]\<close> .. \<^verbatim>\<open>data[12]\<close> raise \<^verbatim>\<open>IndexError\<close> on a payload shorter than 13 bytes.
\<close>

record ihdr =
  ihdr_width :: nat
  ihdr_height :: nat
  bit_depth :: nat
  color_type :: nat
  color_type_name :: string
  compression :: nat
  filter_method :: nat
  interlace :: nat

definition color_type_names :: "nat \<Rightarrow> string" where
  "color_type_names ct =
     (if ct = 0 then ''Grayscale''
      else if ct = 2 then ''RGB (Truecolor)''
      else if ct = 3 then ''Indexed-color (Palette)''
      else if ct = 4 then ''Grayscale with Alpha''
      else if ct = 6 then ''RGBA (Truecolor with Alpha)''
      else ''Unknown'')"

definition parse_ihdr :: "byte list \<Rightarrow> error + ihdr" where
  "parse_ihdr data =
     (if length (take 8 data) \<noteq> 8 then Inl StructError
      else if length data < 13 then Inl IndexError
      else Inr \<lparr>ihdr_width = be_nat (take 4 data),
                ihdr_height = be_nat (take 4 (drop 4 data)),
                bit_depth = unat (data ! 8),
                color_type = unat (data ! 9),
                color_type_name = color_type_names (unat (data ! 9)),
                compression = unat (data ! 10),
                filter_method = unat (data ! 11),
                interlace = unat (data ! 12)\<rparr>)"

text \<open>
  The decoders whose result the analyzer only prints.  Floating-point quotients are
  modelled by exact real division.
\<close>

definition parse_gama :: "byte list \<Rightarrow> error + real \<times> nat" where
  "parse_gama data =
     (case unpack_u32 data of
        Inl e \<Rightarrow> Inl e
      | Inr gamma_int \<Rightarrow> Inr (real gamma_int / 100000, gamma_int))"

definition parse_chrm :: "byte list \<Rightarrow> error + real list" where
  "parse_chrm data =
     (if length data \<noteq> 32 then Inl StructError
      else Inr (map (\<lambda>i. real (be_nat (take 4 (drop (4 * i) data))) / 100000) [0..<8]))"

definition intent_names :: "nat \<Rightarrow> string" where
  "intent_names ri =
     (if ri = 0 then ''Perceptual''
      else if ri = 1 then ''Relative colorimetric''
      else if ri = 2 then ''Saturation''
      else if ri = 3 then ''Absolute colorimetric''
      else ''Unknown'')"

definition parse_srgb :: "byte list \<Rightarrow> error + nat \<times> string" where
  "parse_srgb data =
     (if length data < 1 then Inl IndexError
      else Inr (unat (data ! 0), intent_names (unat (data ! 0))))"

text \<open>Decimal digits of a number, for the \<^verbatim>\<open>f'Unknown ({n})'\<close> labels.\<close>

function str_nat :: "nat \<Rightarrow> string" where
  "str_nat n = (if n < 10 then [char_of (48 + n)]
                else str_nat (n div 10) @ [char_of (48 + n mod 10)])"
  by pat_completeness auto
termination
  by (relation "measure id") auto

declare str_nat.simps [simp del]

definition unknown_label :: "nat \<Rightarrow> string" where
  "unknown_label n = ''Unknown ('' @ str_nat n @ '')''"

definition primaries_names :: "nat \<Rightarrow> string" where
  "primaries_names n =
     (if n = 1 then ''BT.709 (sRGB)''
      else if n = 4 then ''BT.470M''
      else if n = 5 then ''BT.601 (625)''
      else if n = 6 then ''BT.601 (525)''
      else if n = 7 then ''SMPTE 240M''
      else if n = 8 then ''Generic film''
      else if n = 9 then ''BT.2020 / BT.2100''
      else if n = 10 then ''SMPTE ST 428-1 (XYZ)''
      else if n = 11 then ''SMPTE RP 431-2 (DCI-P3)''
      else if n = 12 then ''SMPTE EG 432-1 (Display P3)''
      else if n = 22 then ''EBU Tech 3213-E''
      else unknown_label n)"

definition transfer_names :: "nat \<Rightarrow> string" where
  "transfer_names n =
     (if n = 1 then ''BT.709 / BT.1361''
      else if n = 4 then ''BT.470M (Gamma 2.2)''
      else if n = 5 then ''BT.470BG (Gamma 2.8)''
      else if n = 6 then ''BT.601 / SMPTE 170M''
      else if n = 7 then ''SMPTE 240M''
      else if n = 8 then ''Linear''
      else if n = 9 then ''Logarithmic (100:1)''
      else if n = 10 then ''Logarithmic (100*sqrt(10):1)''
      else if n = 11 then ''IEC 61966-2-4''
      else if n = 12 then ''BT.1361 Extended''
      else if n = 13 then ''sRGB / sYCC''
      else if n = 14 then ''BT.2020 (10-bit)''
      else if n = 15 then ''BT.2020 (12-bit)''
      else if n = 16 then ''SMPTE ST 2084 (PQ / HDR10)''
      else if n = 17 then ''SMPTE ST 428-1''
      else if n = 18 then ''ARIB STD-B67 (HLG)''
      else unknown_label n)"

definition matrix_names :: "nat \<Rightarrow> string" where
  "matrix_names n =
     (if n = 0 then ''Identity (RGB)''
      else if n = 1 then ''BT.709''
      else if n = 4 then ''FCC''
      else if n = 5 then ''BT.470BG''
      else if n = 6 then ''BT.601''
      else if n = 7 then ''SMPTE 240M''
      else if n = 8 then ''YCgCo''
      else if n = 9 then ''BT.2020 non-constant luminance''
      else if n = 10 then ''BT.2020 constant luminance''
      else if n = 11 then ''SMPTE ST 2085''
      else if n = 12 then ''Chromaticity-derived non-constant luminance''
      else if n = 13 then ''Chromaticity-derived constant luminance''
      else if n = 14 then ''ICtCp''
      else unknown_label n)"

record cicp =
  color_primaries :: nat
  color_primaries_name :: string
  transfer_characteristics :: nat
  transfer_name :: string
  matrix_coefficients :: nat
  matrix_name :: string
  video_full_range :: nat
  full_range_name :: string

text \<open>\<^verbatim>\<open>parse_cicp\<close>: \<^verbatim>\<open>data[0]\<close> .. \<^verbatim>\<open>data[3]\<close>, an \<^verbatim>\<open>IndexError\<close> on a shorter payload.\<close>

definition parse_cicp :: "byte list \<Rightarrow> error + cicp" where
  "parse_cicp data =
     (if length data < 4 then Inl IndexError
      else Inr \<lparr>color_primaries = unat (data ! 0),
                color_primaries_name = primaries_names (unat (data ! 0)),
                transfer_characteristics = unat (data ! 1),
                transfer_name = transfer_names (unat (data ! 1)),
                matrix_coefficients = unat (data ! 2),
                matrix_name = matrix_names (unat (data ! 2)),
                video_full_range = unat (data ! 3),
                full_range_name = (if unat (data ! 3) \<noteq> 0 then ''Full range (0-255)''
                                   else ''Limited range (16-235)'')\<rparr>)"

text \<open>\<^verbatim>\<open>data.index(b'\x00')\<close>: the first position of a byte, \<^verbatim>\<open>ValueError\<close> when absent.\<close>

definition bytes_index :: "byte list \<Rightarrow> byte \<Rightarrow> error + nat" where
  "bytes_index data b =
     (if b \<in> set data then Inr (length (takeWhile (\<lambda>x. x \<noteq> b) data)) else Inl ValueError)"

text \<open>\<^verbatim>\<open>bs.decode('latin-1')\<close>: every byte is a character; it never raises.\<close>

definition decode_latin1 :: "byte list \<Rightarrow> string" where
  "decode_latin1 bs = map (\<lambda>b. char_of (unat b)) bs"

text \<open>
  \<^verbatim>\<open>parse_iccp\<close>.  The name lookup and \<^verbatim>\<open>data[null_pos + 1]\<close> are outside the \<^verbatim>\<open>try\<close> and can
  raise; everything after them is inside it, so a failing \<^verbatim>\<open>zlib.decompress\<close> gives the
  record with the \<^verbatim>\<open>error\<close> key.  \<open>zlib_decompress\<close> is the inflate primitive, \<open>None\<close> when
  it raises.  The ICC header fields of \<^verbatim>\<open>icc_info\<close> are only printed and are left out.
\<close>

record iccp =
  profile_name :: string
  compression_method :: nat
  compressed_size :: "nat option"
  decompressed_size :: "nat option"

definition parse_iccp :: "(byte list \<Rightarrow> byte list option) \<Rightarrow> byte list \<Rightarrow> error + iccp" where
  "parse_iccp zlib_decompress data =
     (case bytes_index data 0 of
        Inl e \<Rightarrow> Inl e
      | Inr null_pos \<Rightarrow>
         (if length data \<le> null_pos + 1 then Inl IndexError
          else
            (let compressed_profile = drop (null_pos + 2) data in
             (case zlib_decompress compressed_profile of
                Some profile_data \<Rightarrow>
                  Inr \<lparr>profile_name = decode_latin1 (take null_pos data),
                       compression_method = unat (data ! (null_pos + 1)),
                       compressed_size = Some (length compressed_profile),
                       decompressed_size = Some (length profile_data)\<rparr>
              | None \<Rightarrow>
                  Inr \<lparr>profile_name = decode_latin1 (take null_pos data),
                       compression_method = unat (data ! (null_pos + 1)),
                       compressed_size = None,
                       decompressed_size = None\<rparr>))))"

text \<open>\<^verbatim>\<open>parse_mdcv\<close>: \<^verbatim>\<open>struct.unpack('>HHHHHHHHII', data)\<close> needs exactly 24 bytes.\<close>

record mdcv =
  display_primaries :: "real list"
  white_point_x :: real
  white_point_y :: real
  max_luminance :: real
  min_luminance :: real

definition parse_mdcv :: "byte list \<Rightarrow> error + mdcv" where
  "parse_mdcv data =
     (if length data \<noteq> 24 then Inl StructError
      else Inr \<lparr>display_primaries =
                  map (\<lambda>i. real (be_nat (take 2 (drop (2 * i) data))) / 50000) [0..<6],
                white_point_x = real (be_nat (take 2 (drop 12 data))) / 50000,
                white_point_y = real (be_nat (take 2 (drop 14 data))) / 50000,
                max_luminance = real (be_nat (take 4 (drop 16 data))) / 10000,
                min_luminance = real (be_nat (take 4 (drop 20 data))) / 10000\<rparr>)"

text \<open>\<^verbatim>\<open>parse_clli\<close>: \<^verbatim>\<open>struct.unpack('>II', data)\<close> needs exactly 8 bytes.\<close>

record clli =
  max_content_light_level :: nat
  max_frame_average_light_level :: nat

definition parse_clli :: "byte list \<Rightarrow> error + clli" where
  "parse_clli data =
     (if length data \<noteq> 8 then Inl StructError
      else Inr \<lparr>max_content_light_level = be_nat (take 4 data),
                max_frame_average_light_level = be_nat (take 4 (drop 4 data))\<rparr>)"


section \<open>HDR analysis (\<^verbatim>\<open>analyze_png_hdr\<close>, png_hdr_analyzer.py)\<close>

text \<open>
  The dictionary \<^verbatim>\<open>hdr_info\<close>.  The keys \<^verbatim>\<open>high_bit_depth\<close>, \<^verbatim>\<open>cicp\<close>, \<^verbatim>\<open>mdcv\<close> and \<^verbatim>\<open>clli\<close>
  are absent until a chunk sets them: \<open>None\<close> is the absent key.
\<close>

record hdr_info =
  has_hdr :: bool
  hdr_type :: "string option"
  high_bit_depth :: "bool option"
  info_cicp :: "cicp option"
  info_mdcv :: "mdcv option"
  info_clli :: "clli option"

definition hdr_info_init :: hdr_info where
  "hdr_info_init = \<lparr>has_hdr = False, hdr_type = None, high_bit_depth = None,
                     info_cicp = None, info_mdcv = None, info_clli = None\<rparr>"

text \<open>
  One round of the second \<^verbatim>\<open>for chunk in chunks\<close> loop: the \<^verbatim>\<open>if\<close>/\<^verbatim>\<open>elif\<close> chain on the
  chunk type.  Printing is left out; a decoder that raises ends the analysis.
\<close>

definition analyze_chunk ::
  "(byte list \<Rightarrow> byte list option) \<Rightarrow> hdr_info \<Rightarrow> chunk \<Rightarrow> error + hdr_info" where
  "analyze_chunk zlib_decompress info c =
     (let ty = chunk_type c; data = chunk_data c in
      if ty = ''IHDR'' then
        (case parse_ihdr data of
           Inl e \<Rightarrow> Inl e
         | Inr h \<Rightarrow>
            (if bit_depth h = 16
             then Inr (info\<lparr>has_hdr := True, high_bit_depth := Some True\<rparr>)
             else Inr info))
      else if ty = ''gAMA'' then
        (case parse_gama data of Inl e \<Rightarrow> Inl e | Inr g \<Rightarrow> Inr info)
      else if ty = ''cHRM'' then
        (case parse_chrm data of Inl e \<Rightarrow> Inl e | Inr g \<Rightarrow> Inr info)
      else if ty = ''sRGB'' then
        (case parse_srgb data of Inl e \<Rightarrow> Inl e | Inr g \<Rightarrow> Inr info)
      else if ty = ''cICP'' then
        (case parse_cicp data of
           Inl e \<Rightarrow> Inl e
         | Inr cp \<Rightarrow>
            (let info1 = info\<lparr>has_hdr := True, info_cicp := Some cp\<rparr> in
             if transfer_characteristics cp = 16
             then Inr (info1\<lparr>hdr_type := Some ''HDR10 (PQ)''\<rparr>)
             else if transfer_characteristics cp = 18
             then Inr (info1\<lparr>hdr_type := Some ''HLG''\<rparr>)
             else Inr info1))
      else if ty = ''iCCP'' then
        (case parse_iccp zlib_decompress data of Inl e \<Rightarrow> Inl e | Inr p \<Rightarrow> Inr info)
      else if ty = ''mDCv'' then
        (case parse_mdcv data of
           Inl e \<Rightarrow> Inl e
         | Inr m \<Rightarrow> Inr (info\<lparr>has_hdr := True, info_mdcv := Some m\<rparr>))
      else if ty = ''cLLi'' then
        (case parse_clli data of
           Inl e \<Rightarrow> Inl e
         | Inr l \<Rightarrow> Inr (info\<lparr>has_hdr := True, info_clli := Some l\<rparr>))
      else Inr info)"

fun analyze_chunks ::
  "(byte list \<Rightarrow> byte list option) \<Rightarrow> hdr_info \<Rightarrow> chunk list \<Rightarrow> error + hdr_info" where
  "analyze_chunks zlib_decompress info [] = Inr info"
| "analyze_chunks zlib_decompress info (c # cs) =
     (case analyze_chunk zlib_decompress info c of
        Inl e \<Rightarrow> Inl e
      | Inr info' \<Rightarrow> analyze_chunks zlib_decompress info' cs)"

definition analyze_png_hdr ::
  "(byte list \<Rightarrow> byte list option) \<Rightarrow> byte list \<Rightarrow> error + hdr_info" where
  "analyze_png_hdr zlib_decompress file =
     (case read_png_chunks file of
        Inl e \<Rightarrow> Inl e
      | Inr chunks \<Rightarrow> analyze_chunks zlib_decompress hdr_info_init chunks)"

section \<open>Color Profile Extractor (\<^verbatim>\<open>extract_icc_profile\<close>, hdr_convert.py)\<close>

text \<open>
  The loop of \<^verbatim>\<open>extract_icc_profile\<close>.  It reads the CRC with \<^verbatim>\<open>f.read(4)\<close> and drops it, so
  a truncated chunk does not raise here.  The result \<open>None\<close> is Python's \<^verbatim>\<open>None\<close>, and
  \<open>Some (name, data)\<close> the dictionary with the keys \<^verbatim>\<open>name\<close> and \<^verbatim>\<open>data\<close>.
\<close>

function extract_loop ::
  "(byte list \<Rightarrow> byte list option) \<Rightarrow> byte list \<Rightarrow> error + (string \<times> byte list) option" where
  "extract_loop zlib_decompress f =
     (let length_data = take 4 f in
      if length length_data < 4 then Inr None
      else
        (let len = be_nat length_data;
             f1 = drop 4 f
         in (case decode_ascii (take 4 f1) of
               Inl e \<Rightarrow> Inl e
             | Inr ty \<Rightarrow>
                (let f2 = drop 4 f1;
                     data = take len f2;
                     f3 = drop len f2;
                     f4 = drop 4 f3
                 in if ty = ''iCCP'' then
                      (case bytes_index data 0 of
                         Inl e \<Rightarrow> Inl e
                       | Inr null_pos \<Rightarrow>
                          (case zlib_decompress (drop (null_pos + 2) data) of
                             None \<Rightarrow> Inl ZlibError
                           | Some icc_data \<Rightarrow>
                               Inr (Some (decode_latin1 (take null_pos data), icc_data))))
                    else if ty = ''IEND'' then Inr None
                    else extract_loop zlib_decompress f4))))"
  by pat_completeness auto
termination
  by (relation "measure (\<lambda>(d, f). length f)") auto

declare extract_loop.simps [simp del]

definition extract_icc_profile ::
  "(byte list \<Rightarrow> byte list option) \<Rightarrow> byte list \<Rightarrow> error + (string \<times> byte list) option" where
  "extract_icc_profile zlib_decompress file =
     (if take 8 file \<noteq> png_signature then Inr None
      else extract_loop zlib_decompress (drop 8 file))"

section \<open>Chunk Stream Writer (\<^verbatim>\<open>make_chunk\<close>, \<^verbatim>\<open>save_16bit_png_with_icc\<close>, hdr_convert.py)\<close>

text \<open>
  \<^verbatim>\<open>make_chunk\<close>, called with the type as \<^verbatim>\<open>bytes\<close>.  \<open>crc32\<close> is \<^verbatim>\<open>zlib.crc32\<close>; the mask
  \<^verbatim>\<open>& 0xffffffff\<close> is the \<open>mod\<close>.  Packing the length raises for a payload of
  \<open>2 ^ 32\<close> bytes or more.
\<close>

definition make_chunk :: "(byte list \<Rightarrow> nat) \<Rightarrow> byte list \<Rightarrow> byte list \<Rightarrow> error + byte list" where
  "make_chunk crc32 ctype data =
     (let chunk = ctype @ data;
          crc = crc32 chunk mod 2 ^ 32
      in (case pack_u32 (length data) of
            Inl e \<Rightarrow> Inl e
          | Inr len_bytes \<Rightarrow>
             (case pack_u32 crc of
                Inl e \<Rightarrow> Inl e
              | Inr crc_bytes \<Rightarrow> Inr (len_bytes @ chunk @ crc_bytes))))"

text \<open>
  The 16-bit pixel array: \<^verbatim>\<open>img_array.shape[:2]\<close> is \<open>(img_height, img_width)\<close> and
  \<^verbatim>\<open>img_array[y, x]\<close> is \<open>img_rows ! y ! x\<close>.  A numpy array always satisfies \<open>wf_image16\<close>.
\<close>

type_synonym pixel16 = "16 word \<times> 16 word \<times> 16 word"

record image16 =
  img_height :: nat
  img_width :: nat
  img_rows :: "pixel16 list list"

definition wf_image16 :: "image16 \<Rightarrow> bool" where
  "wf_image16 img = (length (img_rows img) = img_height img
                     \<and> (\<forall>r \<in> set (img_rows img). length r = img_width img))"

text \<open>\<^verbatim>\<open>struct.pack('>H', v)\<close> and \<^verbatim>\<open>struct.pack('>HHH', r, g, b)\<close> on \<^verbatim>\<open>uint16\<close> values.\<close>

definition u16_bytes :: "16 word \<Rightarrow> byte list" where
  "u16_bytes v = [word_of_nat (unat v div 256), word_of_nat (unat v)]"

definition pack_pixel :: "pixel16 \<Rightarrow> byte list" where
  "pack_pixel p = (case p of (r, g, b) \<Rightarrow> u16_bytes r @ u16_bytes g @ u16_bytes b)"

text \<open>The two nested loops building \<^verbatim>\<open>raw_data\<close>: a filter byte 0, then the pixels of the row.\<close>

definition raw_scanline :: "image16 \<Rightarrow> nat \<Rightarrow> byte list" where
  "raw_scanline img y =
     0 # concat (map (\<lambda>x. pack_pixel (img_rows img ! y ! x)) [0..<img_width img])"

definition raw_data :: "image16 \<Rightarrow> byte list" where
  "raw_data img = concat (map (raw_scanline img) [0..<img_height img])"

text \<open>
  \<^verbatim>\<open>for i in range(0, len(compressed_data), chunk_size)\<close>: the slices
  \<^verbatim>\<open>compressed_data[i:i + chunk_size]\<close> with \<open>chunk_size = 8192\<close>.
\<close>

function idat_slices :: "nat \<Rightarrow> byte list \<Rightarrow> byte list list" where
  "idat_slices i compressed_data =
     (if i < length compressed_data
      then take 8192 (drop i compressed_data) # idat_slices (i + 8192) compressed_data
      else [])"
  by pat_completeness auto
termination
  by (relation "measure (\<lambda>(i, d). length d - i)") auto

declare idat_slices.simps [simp del]

text \<open>Concatenating the chunks of a list of payloads; the first failure is the result.\<close>

fun make_chunks :: "(byte list \<Rightarrow> nat) \<Rightarrow> byte list \<Rightarrow> byte list list \<Rightarrow> error + byte list" where
  "make_chunks crc32 ctype [] = Inr []"
| "make_chunks crc32 ctype (d # ds) =
     (case make_chunk crc32 ctype d of
        Inl e \<Rightarrow> Inl e
      | Inr c \<Rightarrow>
         (case make_chunks crc32 ctype ds of
            Inl e \<Rightarrow> Inl e
          | Inr cs \<Rightarrow> Inr (c @ cs)))"

text \<open>
  \<^verbatim>\<open>save_16bit_png_with_icc\<close>; the result is the content of the file written.
  \<open>zlib_compress\<close> is \<^verbatim>\<open>zlib.compress(_, 9)\<close>.  \<^verbatim>\<open>if icc_profile:\<close> is false for \<^verbatim>\<open>None\<close> and
  for empty bytes.  Every exception is raised before the file is opened.
\<close>

definition save_16bit_png_with_icc ::
  "(byte list \<Rightarrow> byte list) \<Rightarrow> (byte list \<Rightarrow> nat) \<Rightarrow> image16 \<Rightarrow> byte list option
     \<Rightarrow> error + byte list" where
  "save_16bit_png_with_icc zlib_compress crc32 img_array icc_profile =
     (case pack_u32 (img_width img_array) of
        Inl e \<Rightarrow> Inl e
      | Inr wb \<Rightarrow>
     (case pack_u32 (img_height img_array) of
        Inl e \<Rightarrow> Inl e
      | Inr hb \<Rightarrow>
     (let ihdr_data = wb @ hb @ [16, 2, 0, 0, 0] in
     (case (case icc_profile of
              None \<Rightarrow> Inr []
            | Some profile \<Rightarrow>
               (if profile = [] then Inr []
                else make_chunk crc32 (encode_ascii ''iCCP'')
                       (encode_ascii ''PQ HDR'' @ [0] @ [0] @ zlib_compress profile))) of
        Inl e \<Rightarrow> Inl e
      | Inr iccp_chunk \<Rightarrow>
     (let compressed_data = zlib_compress (raw_data img_array) in
     (case make_chunks crc32 (encode_ascii ''IDAT'') (idat_slices 0 compressed_data) of
        Inl e \<Rightarrow> Inl e
      | Inr idat_chunks \<Rightarrow>
     (case make_chunk crc32 (encode_ascii ''IHDR'') ihdr_data of
        Inl e \<Rightarrow> Inl e
      | Inr ihdr_chunk \<Rightarrow>
     (case make_chunk crc32 (encode_ascii ''IEND'') [] of
        Inl e \<Rightarrow> Inl e
      | Inr iend_chunk \<Rightarrow>
          Inr (png_signature @ ihdr_chunk @ iccp_chunk @ idat_chunks @ iend_chunk)))))))))"


section \<open>Reassembling the pixel data of a stream\<close>

text \<open>
  The scripts have no pixel decoder.  The following definitions follow the words of the
  specification of the round trip: concatenate the payloads of the \<^verbatim>\<open>IDAT\<close> chunks,
  inflate them, and strip the filter byte in front of every scanline; the header is decoded
  by \<open>parse_ihdr\<close> from the payload of the \<^verbatim>\<open>IHDR\<close> chunk.
\<close>

definition spec_unpack_u16 :: "byte list \<Rightarrow> 16 word" where
  "spec_unpack_u16 bs = word_of_nat (be_nat bs)"

definition spec_unpack_pixel :: "byte list \<Rightarrow> pixel16" where
  "spec_unpack_pixel bs = (spec_unpack_u16 (take 2 bs), spec_unpack_u16 (take 2 (drop 2 bs)),
                           spec_unpack_u16 (take 2 (drop 4 bs)))"

definition spec_unpack_row :: "nat \<Rightarrow> byte list \<Rightarrow> pixel16 list" where
  "spec_unpack_row w bs = map (\<lambda>x. spec_unpack_pixel (take 6 (drop (6 * x) bs))) [0..<w]"

fun spec_strip_filter :: "nat \<Rightarrow> nat \<Rightarrow> byte list \<Rightarrow> pixel16 list list" where
  "spec_strip_filter w 0 raw = []"
| "spec_strip_filter w (Suc h) raw =
     spec_unpack_row w (take (6 * w) (drop 1 raw)) # spec_strip_filter w h (drop (1 + 6 * w) raw)"

definition spec_idat_payload :: "chunk list \<Rightarrow> byte list" where
  "spec_idat_payload cs = concat (map chunk_data (filter (\<lambda>c. chunk_type c = ''IDAT'') cs))"

definition spec_decode ::
  "(byte list \<Rightarrow> byte list option) \<Rightarrow> byte list \<Rightarrow> error + ihdr \<times> pixel16 list list" where
  "spec_decode zlib_decompress file =
     (case read_png_chunks file of
        Inl e \<Rightarrow> Inl e
      | Inr cs \<Rightarrow>
         (case filter (\<lambda>c. chunk_type c = ''IHDR'') cs of
            [] \<Rightarrow> Inl ValueError
          | c # rest \<Rightarrow>
             (case parse_ihdr (chunk_data c) of
                Inl e \<Rightarrow> Inl e
              | Inr h \<Rightarrow>
                 (case zlib_decompress (spec_idat_payload cs) of
                    None \<Rightarrow> Inl ZlibError
                  | Some raw \<Rightarrow>
                      Inr (h, spec_strip_filter (ihdr_width h) (ihdr_height h) raw)))))"

section \<open>Photometric transform pipeline (hdr_convert.py)\<close>

text \<open>
  The samples are binary64 numbers in the script.  They are modelled by real numbers, and
  \<^verbatim>\<open>np.power\<close> by \<open>powr\<close> (both give 0 for base 0 and a positive exponent): the model is the
  arithmetic the script asks for, without the rounding of each operation.
\<close>

text \<open>\<^verbatim>\<open>np.clip(x, lo, hi)\<close>.\<close>

definition clip :: "real \<Rightarrow> real \<Rightarrow> real \<Rightarrow> real" where
  "clip x lo hi = min (max x lo) hi"

text \<open>\<^verbatim>\<open>np.where(x <= 0.04045, x / 12.92, ((x + 0.055) / 1.055) ** 2.4)\<close>.\<close>

definition srgb_to_linear :: "real \<Rightarrow> real" where
  "srgb_to_linear x =
     (if x \<le> 4045 / 100000 then x / (1292 / 100) else ((x + 55 / 1000) / (1055 / 1000)) powr (24 / 10))"

definition pq_m1 :: real where "pq_m1 = 2610 / 16384"
definition pq_m2 :: real where "pq_m2 = 2523 / 4096 * 128"
definition pq_c1 :: real where "pq_c1 = 3424 / 4096"
definition pq_c2 :: real where "pq_c2 = 2413 / 4096 * 32"
definition pq_c3 :: real where "pq_c3 = 2392 / 4096 * 32"

definition linear_to_pq :: "real \<Rightarrow> real" where
  "linear_to_pq x0 =
     (let x = clip x0 0 1;
          x_pow_m1 = x powr pq_m1;
          numerator = pq_c1 + pq_c2 * x_pow_m1;
          denominator = 1 + pq_c3 * x_pow_m1
      in (numerator / denominator) powr pq_m2)"

text \<open>
  \<^verbatim>\<open>create_radial_mask\<close> with \<^verbatim>\<open>center=None\<close>, as \<^verbatim>\<open>convert_to_hdr\<close> calls it: the value of
  the mask at row \<open>y\<close> and column \<open>x\<close>.  \<open>radius\<close> and \<open>falloff\<close> are Python integers.
\<close>

definition pixel_dist :: "nat \<Rightarrow> nat \<Rightarrow> nat \<Rightarrow> nat \<Rightarrow> real" where
  "pixel_dist width height y x =
     sqrt (real_of_int ((int x - int (width div 2))\<^sup>2 + (int y - int (height div 2))\<^sup>2))"

definition radial_mask_value :: "int \<Rightarrow> int \<Rightarrow> real \<Rightarrow> real" where
  "radial_mask_value radius falloff distance =
     (if falloff > 0 then clip ((distance - real_of_int radius) / real_of_int falloff) 0 1
      else (if distance > real_of_int radius then 1 else 0))"

definition create_radial_mask :: "nat \<Rightarrow> nat \<Rightarrow> int \<Rightarrow> int \<Rightarrow> nat \<Rightarrow> nat \<Rightarrow> real" where
  "create_radial_mask width height radius falloff y x =
     radial_mask_value radius falloff (pixel_dist width height y x)"

text \<open>The factor \<^verbatim>\<open>1.0 + mask_3d * (gain - 1.0)\<close> of both boosts.\<close>

definition boost_multiplier :: "real \<Rightarrow> real \<Rightarrow> real" where
  "boost_multiplier mask_value boost_gain = 1 + mask_value * (boost_gain - 1)"

text \<open>
  The chain of \<^verbatim>\<open>convert_to_hdr\<close> on one normalised sample \<open>x\<close>, up to the PQ value.
  \<open>radial\<close> is the value of the radial mask at the pixel when \<^verbatim>\<open>radial_boost\<close> is given,
  \<open>mask_field\<close> the value of the loaded mask when \<^verbatim>\<open>mask_path\<close> is given.
\<close>

definition pipeline_pq ::
  "real \<Rightarrow> real \<Rightarrow> real option \<Rightarrow> real \<Rightarrow> real option \<Rightarrow> real \<Rightarrow> real \<Rightarrow> real" where
  "pipeline_pq gain nits radial radial_gain mask_field mask_gain x =
     (let linear = srgb_to_linear x;
          linear = linear * gain;
          linear = (case radial of
                      None \<Rightarrow> linear
                    | Some m \<Rightarrow> linear * boost_multiplier m radial_gain);
          linear = (case mask_field of
                      None \<Rightarrow> linear
                    | Some m \<Rightarrow> linear * boost_multiplier m mask_gain);
          linear = linear * (nits / 10000);
          linear = clip linear 0 1
      in linear_to_pq linear)"

text \<open>
  \<^verbatim>\<open>(pq * 65535).astype(np.uint16)\<close>: the conversion drops the fraction (towards zero)
  and keeps the low 16 bits.
\<close>

definition astype_uint16 :: "real \<Rightarrow> 16 word" where
  "astype_uint16 r = word_of_int (if r \<ge> 0 then \<lfloor>r\<rfloor> else \<lceil>r\<rceil>)"

definition quantize :: "real \<Rightarrow> 16 word" where
  "quantize pq = astype_uint16 (pq * 65535)"

text \<open>
  The decoded input: \<^verbatim>\<open>img_rgb.size\<close> and the 8-bit RGB samples of \<^verbatim>\<open>np.array(img_rgb)\<close>.
\<close>

type_synonym pixel8 = "byte \<times> byte \<times> byte"

record image8 =
  src_height :: nat
  src_width :: nat
  src_rows :: "pixel8 list list"

definition wf_image8 :: "image8 \<Rightarrow> bool" where
  "wf_image8 img = (length (src_rows img) = src_height img
                    \<and> (\<forall>r \<in> set (src_rows img). length r = src_width img))"

definition convert_sample ::
  "real \<Rightarrow> real \<Rightarrow> real option \<Rightarrow> real \<Rightarrow> real option \<Rightarrow> real \<Rightarrow> byte \<Rightarrow> 16 word" where
  "convert_sample gain nits radial radial_gain mask_field mask_gain v =
     quantize (pipeline_pq gain nits radial radial_gain mask_field mask_gain (real (unat v) / 255))"

text \<open>
  The 16-bit array \<^verbatim>\<open>img_16bit\<close>.  \<open>mask_field\<close> is the array \<^verbatim>\<open>load_mask_image\<close> returns, which
  it has resized to the size of the image, as a function of row and column.
\<close>

definition convert_pixels ::
  "image8 \<Rightarrow> real \<Rightarrow> real \<Rightarrow> int option \<Rightarrow> real \<Rightarrow> int \<Rightarrow> (nat \<Rightarrow> nat \<Rightarrow> real) option \<Rightarrow> real
     \<Rightarrow> image16" where
  "convert_pixels img gain nits radial_boost radial_gain falloff mask_field mask_gain =
     \<lparr>img_height = src_height img,
      img_width = src_width img,
      img_rows =
        map (\<lambda>y. map (\<lambda>x.
              (let radial = (case radial_boost of
                               None \<Rightarrow> None
                             | Some radius \<Rightarrow>
                                 Some (create_radial_mask (src_width img) (src_height img)
                                         radius falloff y x));
                   m = (case mask_field of None \<Rightarrow> None | Some field \<Rightarrow> Some (field y x));
                   f = convert_sample gain nits radial radial_gain m mask_gain
               in (case src_rows img ! y ! x of (r, g, b) \<Rightarrow> (f r, f g, f b))))
            [0..<src_width img]) [0..<src_height img]\<rparr>"

text \<open>
  \<^verbatim>\<open>convert_to_hdr\<close>.  \<open>reference_hdr\<close> is the content of the reference file when the path is
  given and the file exists.  The function has no check of \<open>gain\<close>, \<open>nits\<close>, the radius
  or the falloff; the result is the content of the output file.
\<close>

definition convert_to_hdr ::
  "(byte list \<Rightarrow> byte list) \<Rightarrow> (byte list \<Rightarrow> byte list option) \<Rightarrow> (byte list \<Rightarrow> nat)
     \<Rightarrow> image8 \<Rightarrow> real \<Rightarrow> real \<Rightarrow> int option \<Rightarrow> real \<Rightarrow> int
     \<Rightarrow> (nat \<Rightarrow> nat \<Rightarrow> real) option \<Rightarrow> real \<Rightarrow> byte list option \<Rightarrow> error + byte list" where
  "convert_to_hdr zlib_compress zlib_decompress crc32 img gain nits radial_boost radial_gain
       falloff mask_field mask_gain reference_hdr =
     (let img_16bit = convert_pixels img gain nits radial_boost radial_gain falloff mask_field mask_gain
      in (case (case reference_hdr of
                  None \<Rightarrow> Inr None
                | Some ref \<Rightarrow>
                   (case extract_icc_profile zlib_decompress ref of
                      Inl e \<Rightarrow> Inl e
                    | Inr None \<Rightarrow> Inr None
                    | Inr (Some (name, data)) \<Rightarrow> Inr (Some data))) of
            Inl e \<Rightarrow> Inl e
          | Inr icc_profile \<Rightarrow> save_16bit_png_with_icc zlib_compress crc32 img_16bit icc_profile))"


section \<open>Well-formed streams and example inputs\<close>

text \<open>A list of well-formed records none of which is the end marker.\<close>

definition wf_chunks :: "chunk list \<Rightarrow> bool" where
  "wf_chunks cs = (\<forall>c \<in> set cs. wf_chunk c \<and> chunk_type c \<noteq> ''IEND'')"

text \<open>Two example records: a \<^verbatim>\<open>gAMA\<close> chunk with the raw value 45455 and the end marker.\<close>

definition ex_gama :: chunk where
  "ex_gama = \<lparr>chunk_type = ''gAMA'', chunk_length = 4, chunk_data = [0, 0, 177, 143],
              chunk_crc = 201089285\<rparr>"

definition ex_iend :: chunk where
  "ex_iend = \<lparr>chunk_type = ''IEND'', chunk_length = 0, chunk_data = [], chunk_crc = 2923585666\<rparr>"

section \<open>Properties of the packing functions and of the reader\<close>

lemma length_u32_bytes [simp]: "length (u32_bytes n) = 4"
  by (simp add: u32_bytes_def)

lemma be_nat_u32_bytes [simp]:
  assumes "n < 2 ^ 32"
  shows "be_nat (u32_bytes n) = n"
proof -
  have a: "n mod 65536 = 256 * (n div 256 mod 256) + n mod 256"
    using mod_mult2_eq[of n 256 256] by simp
  have b: "n mod 16777216 = 65536 * (n div 65536 mod 256) + n mod 65536"
    using mod_mult2_eq[of n 65536 256] by simp
  have c: "n mod 4294967296 = 16777216 * (n div 16777216 mod 256) + n mod 16777216"
    using mod_mult2_eq[of n 16777216 256] by simp
  from assms have d: "n mod 4294967296 = n" by simp
  have "be_nat (u32_bytes n) =
          ((n div 16777216 mod 256 * 256 + n div 65536 mod 256) * 256 + n div 256 mod 256) * 256
            + n mod 256"
    by (simp add: be_nat_def u32_bytes_def unat_of_nat)
  also have "\<dots> = n"
  proof -
    have lin: "\<And>x3 x2 x1 m0 m1 m2 k :: nat.
      m1 = 256 * x1 + m0 \<Longrightarrow> m2 = 65536 * x2 + m1 \<Longrightarrow> k = 16777216 * x3 + m2
        \<Longrightarrow> ((x3 * 256 + x2) * 256 + x1) * 256 + m0 = k"
      by simp
    from c d have c': "n = 16777216 * (n div 16777216 mod 256) + n mod 16777216"
      by simp
    show ?thesis by (rule lin[OF a b c'])
  qed
  finally show ?thesis .
qed

lemma unat_of_char_byte: "unat (of_char c :: byte) = of_char c"
proof -
  have "unat (word_of_nat (of_char c) :: byte) = (of_char c :: nat) mod 2 ^ LENGTH(8)"
    by (rule unat_of_nat)
  also have "\<dots> = of_char c"
    by simp
  finally show ?thesis
    by (simp only: of_nat_of_char)
qed

lemma length_encode_ascii [simp]: "length (encode_ascii s) = length s"
  by (simp add: encode_ascii_def)

lemma decode_encode_ascii: "is_ascii s \<Longrightarrow> decode_ascii (encode_ascii s) = Inr s"
  by (auto simp: decode_ascii_def encode_ascii_def is_ascii_def word_less_nat_alt
      unat_of_char_byte map_idI)

lemma unpack_u32_bytes [simp]: "n < 2 ^ 32 \<Longrightarrow> unpack_u32 (u32_bytes n) = Inr n"
  by (simp add: unpack_u32_def)

lemma read_chunks_loop_short: "length f < 4 \<Longrightarrow> read_chunks_loop f = Inr []"
  by (subst read_chunks_loop.simps) simp

lemma chunk_eta:
  "\<lparr>chunk_type = chunk_type c, chunk_length = chunk_length c,
    chunk_data = chunk_data c, chunk_crc = chunk_crc c\<rparr> = (c :: chunk)"
  by (cases c) simp

lemma read_chunks_loop_chunk:
  assumes "wf_chunk c"
  shows "read_chunks_loop (chunk_bytes c @ rest) =
           (if chunk_type c = ''IEND'' then Inr [c]
            else (case read_chunks_loop rest of Inl e \<Rightarrow> Inl e | Inr cs \<Rightarrow> Inr (c # cs)))"
proof -
  from assms have t: "length (chunk_type c) = 4" "is_ascii (chunk_type c)"
    and l: "chunk_length c < 2 ^ 32" "length (chunk_data c) = chunk_length c"
    and k: "chunk_crc c < 2 ^ 32"
    by (simp_all add: wf_chunk_def)
  show ?thesis
    apply (subst read_chunks_loop.simps)
    using t l k
    apply (simp add: chunk_bytes_def decode_encode_ascii Let_def)
    apply (cases "read_chunks_loop rest")
     apply (simp_all add: chunk_eta)
    done
qed

lemma read_chunks_loop_chunks:
  assumes "\<forall>c \<in> set cs. wf_chunk c \<and> chunk_type c \<noteq> ''IEND''"
  shows "read_chunks_loop (concat (map chunk_bytes cs) @ rest) =
           (case read_chunks_loop rest of Inl e \<Rightarrow> Inl e | Inr cs' \<Rightarrow> Inr (cs @ cs'))"
  using assms
  by (induction cs) (auto simp: read_chunks_loop_chunk split: sum.splits)

lemma read_chunks_loop_unfold:
  "\<not> length f < 4 \<Longrightarrow> read_chunks_loop f =
     (case decode_ascii (take 4 (drop 4 f)) of
        Inl e \<Rightarrow> Inl e
      | Inr ty \<Rightarrow>
         (case unpack_u32 (take 4 (drop (be_nat (take 4 f)) (drop 8 f))) of
            Inl e \<Rightarrow> Inl e
          | Inr crc_val \<Rightarrow>
             (if ty = ''IEND''
              then Inr [\<lparr>chunk_type = ty, chunk_length = be_nat (take 4 f),
                          chunk_data = take (be_nat (take 4 f)) (drop 8 f),
                          chunk_crc = crc_val\<rparr>]
              else (case read_chunks_loop (drop 4 (drop (be_nat (take 4 f)) (drop 8 f))) of
                      Inl e \<Rightarrow> Inl e
                    | Inr cs \<Rightarrow> Inr (\<lparr>chunk_type = ty, chunk_length = be_nat (take 4 f),
                          chunk_data = take (be_nat (take 4 f)) (drop 8 f),
                          chunk_crc = crc_val\<rparr> # cs)))))"
  by (subst read_chunks_loop.simps) (simp add: Let_def split: sum.splits)

lemma read_chunks_loop_cases:
  assumes "read_chunks_loop f = Inr cs"
  obtains (stop) "length f < 4" "cs = []"
  | (chunk) c rest cs' where "cs = c # cs'" "length (chunk_data c) = chunk_length c"
      "length rest < length f"
      "if chunk_type c = ''IEND'' then cs' = [] else read_chunks_loop rest = Inr cs'"
proof (cases "length f < 4")
  case True
  with assms have "cs = []" by (simp add: read_chunks_loop_short)
  with True show ?thesis by (rule stop)
next
  case False
  define len where "len = be_nat (take 4 f)"
  define f2 where "f2 = drop 8 f"
  note u = read_chunks_loop_unfold[OF False, folded len_def f2_def]
  obtain ty where ty: "decode_ascii (take 4 (drop 4 f)) = Inr ty"
    using assms by (cases "decode_ascii (take 4 (drop 4 f))") (simp_all add: u)
  obtain crc_val where crc: "unpack_u32 (take 4 (drop len f2)) = Inr crc_val"
    using assms ty by (cases "unpack_u32 (take 4 (drop len f2))") (simp_all add: u)
  let ?c = "\<lparr>chunk_type = ty, chunk_length = len,
             chunk_data = take len f2, chunk_crc = crc_val\<rparr>"
  let ?rest = "drop 4 (drop len f2)"
  from crc have "length (take 4 (drop len f2)) = 4"
    by (simp add: unpack_u32_def split: if_splits)
  then have long: "len + 4 \<le> length f2" by simp
  then have exact: "length (chunk_data ?c) = chunk_length ?c" by simp
  from False long have shorter: "length ?rest < length f"
    by (simp add: f2_def)
  show ?thesis
  proof (cases "ty = ''IEND''")
    case True
    with assms have "cs = [?c]" by (simp add: u ty crc)
    with True exact shorter show ?thesis by (intro chunk[of ?c "[]" ?rest]) simp_all
  next
    case F: False
    with assms obtain cs' where r: "read_chunks_loop ?rest = Inr cs'"
      and c: "cs = ?c # cs'"
      by (cases "read_chunks_loop ?rest") (simp_all add: u ty crc)
    with F exact shorter show ?thesis by (intro chunk[of ?c cs' ?rest]) simp_all
  qed
qed

lemma read_chunks_loop_exact:
  "read_chunks_loop f = Inr cs \<Longrightarrow> c \<in> set cs \<Longrightarrow> length (chunk_data c) = chunk_length c"
proof (induction "length f" arbitrary: f cs rule: less_induct)
  case less
  from less.prems(1) show ?case
  proof (cases rule: read_chunks_loop_cases)
    case stop
    with less.prems(2) show ?thesis by simp
  next
    case (chunk c0 rest cs')
    show ?thesis
    proof (cases "c = c0")
      case True
      with chunk(2) show ?thesis by simp
    next
      case False
      with less.prems(2) chunk(1) have in': "c \<in> set cs'" by simp
      then have "cs' \<noteq> []" by auto
      with chunk(4) have "read_chunks_loop rest = Inr cs'"
        by (cases "chunk_type c0 = ''IEND''") simp_all
      from less.hyps[OF chunk(3) this in'] show ?thesis .
    qed
  qed
qed

lemma read_chunks_loop_IEND_last:
  "read_chunks_loop f = Inr cs \<Longrightarrow> i < length cs \<Longrightarrow> chunk_type (cs ! i) = ''IEND''
     \<Longrightarrow> Suc i = length cs"
proof (induction "length f" arbitrary: f cs i rule: less_induct)
  case less
  from less.prems(1) show ?case
  proof (cases rule: read_chunks_loop_cases)
    case stop
    with less.prems(2) show ?thesis by simp
  next
    case (chunk c0 rest cs')
    show ?thesis
    proof (cases i)
      case 0
      with less.prems(3) chunk(1) have "chunk_type c0 = ''IEND''" by simp
      with chunk(4) have "cs' = []" by simp
      with chunk(1) 0 show ?thesis by simp
    next
      case (Suc j)
      with less.prems(2,3) chunk(1) have j: "j < length cs'" "chunk_type (cs' ! j) = ''IEND''"
        by simp_all
      then have "cs' \<noteq> []" by auto
      with chunk(4) have "read_chunks_loop rest = Inr cs'"
        by (cases "chunk_type c0 = ''IEND''") simp_all
      from less.hyps[OF chunk(3) this j] chunk(1) Suc show ?thesis by simp
    qed
  qed
qed

lemma read_png_chunks_signature:
  "read_png_chunks (png_signature @ f) = read_chunks_loop f"
  by (simp add: read_png_chunks_def png_signature_def)

text \<open>
  Claim C7.  On a file that begins with the signature, the reader ends without an error
  when fewer than 4 bytes are left where a length field is expected; it ends right after
  the record of type \<^verbatim>\<open>IEND\<close>, whatever follows; and in every list of records it returns,
  the payload of each record has exactly the declared length and \<^verbatim>\<open>IEND\<close> can only be the
  type of the last record.
\<close>

theorem read_png_chunks_contract:
  "(wf_chunks cs \<and> length tail < 4 \<longrightarrow>
      read_png_chunks (png_signature @ concat (map chunk_bytes cs) @ tail) = Inr cs)
   \<and> (wf_chunks cs \<and> wf_chunk e \<and> chunk_type e = ''IEND'' \<longrightarrow>
      read_png_chunks (png_signature @ concat (map chunk_bytes cs) @ chunk_bytes e @ rest)
        = Inr (cs @ [e]))
   \<and> (read_png_chunks (png_signature @ f) = Inr rs \<longrightarrow>
        (\<forall>c \<in> set rs. length (chunk_data c) = chunk_length c)
        \<and> (\<forall>i < length rs. chunk_type (rs ! i) = ''IEND'' \<longrightarrow> Suc i = length rs))"
proof (intro conjI impI)
  assume a: "wf_chunks cs \<and> length tail < 4"
  then show "read_png_chunks (png_signature @ concat (map chunk_bytes cs) @ tail) = Inr cs"
    by (simp add: read_png_chunks_signature read_chunks_loop_chunks wf_chunks_def
        read_chunks_loop_short)
next
  assume a: "wf_chunks cs \<and> wf_chunk e \<and> chunk_type e = ''IEND''"
  then show "read_png_chunks (png_signature @ concat (map chunk_bytes cs) @ chunk_bytes e @ rest)
        = Inr (cs @ [e])"
    by (simp add: read_png_chunks_signature read_chunks_loop_chunks wf_chunks_def
        read_chunks_loop_chunk)
next
  assume r: "read_png_chunks (png_signature @ f) = Inr rs"
  then have l: "read_chunks_loop f = Inr rs"
    by (simp add: read_png_chunks_signature)
  show "\<forall>c \<in> set rs. length (chunk_data c) = chunk_length c"
    using read_chunks_loop_exact[OF l] by blast
  show "\<forall>i < length rs. chunk_type (rs ! i) = ''IEND'' \<longrightarrow> Suc i = length rs"
    using read_chunks_loop_IEND_last[OF l] by blast
qed

lemma wf_ex_gama: "wf_chunk ex_gama \<and> chunk_type ex_gama \<noteq> ''IEND''"
  by (simp add: wf_chunk_def ex_gama_def is_ascii_def)

lemma wf_ex_iend: "wf_chunk ex_iend \<and> chunk_type ex_iend = ''IEND''"
  by (simp add: wf_chunk_def ex_iend_def is_ascii_def)

theorem read_png_chunks_contract_witness:
  "wf_chunks [ex_gama] \<and> length [1, 2, 3 :: byte] < 4
   \<and> read_png_chunks (png_signature @ concat (map chunk_bytes [ex_gama]) @ [1, 2, 3]) = Inr [ex_gama]
   \<and> wf_chunk ex_iend \<and> chunk_type ex_iend = ''IEND''
   \<and> read_png_chunks (png_signature @ concat (map chunk_bytes [ex_gama]) @ chunk_bytes ex_iend
                         @ [9, 9, 9, 9, 9])
         = Inr ([ex_gama] @ [ex_iend])
   \<and> length (chunk_data ex_gama) = chunk_length ex_gama
   \<and> length (chunk_data ex_iend) = chunk_length ex_iend
   \<and> chunk_type (([ex_gama] @ [ex_iend]) ! 1) = ''IEND''
   \<and> Suc 1 = length ([ex_gama] @ [ex_iend])"
proof -
  have w: "wf_chunks [ex_gama]"
    using wf_ex_gama by (simp add: wf_chunks_def)
  note t = read_png_chunks_contract[where cs = "[ex_gama]" and tail = "[1, 2, 3]"
      and e = ex_iend and rest = "[9, 9, 9, 9, 9]"
      and f = "concat (map chunk_bytes [ex_gama]) @ chunk_bytes ex_iend @ [9, 9, 9, 9, 9]"
      and rs = "[ex_gama] @ [ex_iend]"]
  from t w wf_ex_iend show ?thesis by simp
qed

end
